theory Spec2Isabelle
  imports Complex_Main
begin

section \<open>Energy Insights Pro: the dashboard script \<open>app.py\<close>\<close>

text \<open>
  The program is one class, \<open>EnergyConsumptionApp\<close>, whose constructor loads three
  artifacts (\<open>load_resources\<close>) and whose method \<open>run\<close> reads the widgets, builds a
  one-row data frame, selects the columns the models expect, calls both models and
  renders the result. The embedding keeps that shape: the widgets' values are the input
  of \<open>run\<close>, everything the script shows or calls is an event of its trace, every
  exception is a value, and the models are opaque functions.
\<close>

subsection \<open>Values, data frames, exceptions\<close>

text \<open>
  A cell of the data frame is a Python \<open>float\<close> (the slider readings and the constant
  \<open>0.0\<close>) or a Python \<open>int\<close> (the calendar fields and the two flags). The script does no
  arithmetic on the readings, so a float is carried as the real number it denotes.
\<close>

datatype cell = FloatV real | IntV int

text \<open>
  The data frame of the script has exactly one row, so it is the list of its columns in
  order, each a name with the value of that row.
\<close>

type_synonym dataframe = "(string \<times> cell) list"

text \<open>
  The exception classes the script distinguishes in its handlers. \<open>OtherException\<close> is
  any exception that is neither a \<open>FileNotFoundError\<close>, a \<open>ValueError\<close>, a \<open>KeyError\<close>
  nor an \<open>IndexError\<close>.
\<close>

datatype py_exception =
    FileNotFoundError string
  | ValueError string
  | KeyError "string list"
  | IndexError
  | OtherException string

subsection \<open>Date and time (lines 160--173)\<close>

text \<open>
  \<open>st.sidebar.date_input\<close> returns a \<open>datetime.date\<close> and \<open>st.sidebar.time_input\<close> a
  \<open>datetime.time\<close>; \<open>pd.Timestamp.combine\<close> puts the fields of both into one timestamp.
  The date widget only offers valid dates within ten years of its default, 2024-11-28,
  all of which a timestamp can hold.
\<close>

record date =
  date_year :: int
  date_month :: int
  date_day :: int

record time =
  time_hour :: int
  time_minute :: int
  time_second :: int
  time_microsecond :: int

record timestamp =
  year :: int
  month :: int
  day :: int
  hour :: int
  minute :: int
  second :: int
  microsecond :: int

definition combine :: "date \<Rightarrow> time \<Rightarrow> timestamp" where
  "combine d t =
     \<lparr> year = date_year d, month = date_month d, day = date_day d,
       hour = time_hour t, minute = time_minute t, second = time_second t,
       microsecond = time_microsecond t \<rparr>"

text \<open>
  \<open>weekday()\<close> is the library's: the day of the week of the proleptic Gregorian date,
  Monday being 0 and Sunday 6. It is written here as the standard library's \<open>datetime\<close>
  computes it, from the ordinal of the date (0001-01-01 has ordinal 1 and is a Monday).
\<close>

definition is_leap :: "int \<Rightarrow> bool" where
  "is_leap y = (if y mod 4 = 0 then (if y mod 100 = 0 then y mod 400 = 0 else True) else False)"

definition days_before_year :: "int \<Rightarrow> int" where
  "days_before_year y = (y - 1) * 365 + (y - 1) div 4 - (y - 1) div 100 + (y - 1) div 400"

definition days_in_month_table :: "int list" where
  "days_in_month_table = [31, 28, 31, 30, 31, 30, 31, 31, 30, 31, 30, 31]"

definition days_before_month :: "int \<Rightarrow> int \<Rightarrow> int" where
  "days_before_month y m =
     sum_list (take (nat (m - 1)) days_in_month_table) + (if 2 < m \<and> is_leap y then 1 else 0)"

definition toordinal :: "timestamp \<Rightarrow> int" where
  "toordinal ts = days_before_year (year ts) + days_before_month (year ts) (month ts) + day ts"

definition weekday :: "timestamp \<Rightarrow> int" where
  "weekday ts = (toordinal ts + 6) mod 7"

subsection \<open>The calendar the weekday is measured against\<close>

text \<open>
  The Gregorian calendar, stated on its own and not through ordinals: which years are
  leap years, how long each month is, which dates exist, and which date follows a date.
  The weekday of the script is compared with it: the day after a Monday is a Tuesday,
  also across the end of a month or a year.
\<close>

definition gregorian_leap_year :: "int \<Rightarrow> bool" where
  "gregorian_leap_year y = (y mod 4 = 0 \<and> (0 < y mod 100 \<or> y mod 400 = 0))"

definition calendar_days_in_month :: "int \<Rightarrow> int \<Rightarrow> int" where
  "calendar_days_in_month y m =
     (if m = 2 then (if gregorian_leap_year y then 29 else 28)
      else if m = 4 \<or> m = 6 \<or> m = 9 \<or> m = 11 then 30
      else 31)"

definition valid_date :: "date \<Rightarrow> bool" where
  "valid_date d =
     (1 \<le> date_month d \<and> date_month d \<le> 12 \<and> 1 \<le> date_day d
      \<and> date_day d \<le> calendar_days_in_month (date_year d) (date_month d))"

definition calendar_next_day :: "date \<Rightarrow> date" where
  "calendar_next_day d =
     (if date_day d < calendar_days_in_month (date_year d) (date_month d)
        then \<lparr> date_year = date_year d, date_month = date_month d, date_day = date_day d + 1 \<rparr>
      else if date_month d < 12
        then \<lparr> date_year = date_year d, date_month = date_month d + 1, date_day = 1 \<rparr>
      else \<lparr> date_year = date_year d + 1, date_month = 1, date_day = 1 \<rparr>)"



fun days_later :: "nat \<Rightarrow> date \<Rightarrow> date" where
  "days_later 0 d = d"
| "days_later (Suc n) d = calendar_next_day (days_later n d)"

subsection \<open>The widgets' values\<close>

text \<open>
  One interaction supplies the five slider readings (lines 154--158) and the date and
  time (lines 161--162).
\<close>

record inputs =
  voltage :: real
  global_intensity :: real
  sub_metering_1 :: real
  sub_metering_2 :: real
  sub_metering_3 :: real
  date :: date
  time :: time

subsection \<open>Building the data frame (lines 164--191)\<close>

definition build_input_data :: "inputs \<Rightarrow> dataframe" where
  "build_input_data inp =
     (let date_time = combine (date inp) (time inp);
          is_holiday = 0; light = 1; wd = weekday date_time
      in [ (''Global_reactive_power'', FloatV 0.0),
           (''Voltage'', FloatV (voltage inp)),
           (''Global_intensity'', FloatV (global_intensity inp)),
           (''Sub_metering_1'', FloatV (sub_metering_1 inp)),
           (''Sub_metering_2'', FloatV (sub_metering_2 inp)),
           (''Sub_metering_3'', FloatV (sub_metering_3 inp)),
           (''Year'', IntV (year date_time)),
           (''Month'', IntV (month date_time)),
           (''Day'', IntV (day date_time)),
           (''Hour'', IntV (hour date_time)),
           (''Minute'', IntV (minute date_time)),
           (''Is_holiday'', IntV is_holiday),
           (''Light'', IntV light),
           (''Weekday'', IntV wd) ])"

subsection \<open>Selecting the expected columns (line 195)\<close>

text \<open>
  \<open>input_data[self.feature_names]\<close> with a list of names: the frame of those columns, in
  the order of the list, or a \<open>KeyError\<close> when a name is not a column. The error carries
  the names that were not found, each once in the order of its first occurrence, as the
  library's message lists them (when no name at all is a column the message quotes the
  whole list instead, which names the same columns).
\<close>

fun unique :: "string list \<Rightarrow> string list" where
  "unique [] = []"
| "unique (x # xs) = x # unique (filter (\<lambda>y. y \<noteq> x) xs)"

definition df_getitem :: "dataframe \<Rightarrow> string list \<Rightarrow> py_exception + dataframe" where
  "df_getitem df names =
     (let not_found = filter (\<lambda>n. map_of df n = None) names
      in if not_found = [] then Inr (map (\<lambda>n. (n, the (map_of df n))) names)
         else Inl (KeyError (unique not_found)))"

definition row_values :: "dataframe \<Rightarrow> cell list" where
  "row_values df = map snd df"

subsection \<open>The models (lines 201--203)\<close>

text \<open>
  A loaded model is opaque: all the script does with it is call \<open>predict\<close> on the
  selected frame, which returns an array of predictions or raises. \<open>[0]\<close> takes the first
  prediction and raises \<open>IndexError\<close> on an empty array.
\<close>

datatype predict_result = Returns "real list" | Raises py_exception

type_synonym predictor = "dataframe \<Rightarrow> predict_result"

definition predict_first :: "predictor \<Rightarrow> dataframe \<Rightarrow> py_exception + real" where
  "predict_first model df =
     (case model df of
        Raises e \<Rightarrow> Inl e
      | Returns ys \<Rightarrow> (case ys of [] \<Rightarrow> Inl IndexError | y # _ \<Rightarrow> Inr y))"

subsection \<open>The application object and what a script run shows\<close>

record app =
  linear_model :: predictor
  ridge_model :: predictor
  feature_names :: "string list"

datatype model_id = Linear | Ridge

text \<open>The four \<open>st.error\<close> messages of the script, each with the exception it formats.\<close>

datatype message =
    File_not_found py_exception
  | Error_loading_resources py_exception
  | Missing_features py_exception
  | Prediction_error py_exception

text \<open>
  The trace of a script run: the elements it renders, in order, and the calls of the
  models' \<open>predict\<close>. The prediction card shows both estimates in one element.
\<close>

datatype event =
    Page_config
  | Custom_css
  | Sidebar_heading
  | Toast_models_loaded
  | Error_box message
  | Page_title
  | Widget string
  | Predict_called model_id dataframe
  | Prediction_card real real
  | Methodology_expander

text \<open>
  A script run ends by reaching the end of the script, by \<open>st.stop()\<close>, or by an
  exception that no handler of the script catches.
\<close>

datatype outcome = Completed | Stopped | Uncaught py_exception

subsection \<open>\<open>load_resources\<close> (lines 129--141)\<close>

text \<open>
  The three files are what \<open>joblib.load\<close> makes of them: an object of the type the
  artifact is meant to hold, or an exception.
\<close>

datatype 'a load_result = Loaded 'a | Load_raises py_exception

record artifacts =
  linear_model_pkl :: "predictor load_result"
  ridge_model_pkl :: "predictor load_result"
  feature_names_pkl :: "string list load_result"

text \<open>The body of the \<open>try\<close>: three loads in sequence, the first exception leaves it.\<close>

definition load_all :: "artifacts \<Rightarrow> py_exception + app" where
  "load_all fs =
     (case linear_model_pkl fs of
        Load_raises e \<Rightarrow> Inl e
      | Loaded lm \<Rightarrow>
          (case ridge_model_pkl fs of
             Load_raises e \<Rightarrow> Inl e
           | Loaded rm \<Rightarrow>
               (case feature_names_pkl fs of
                  Load_raises e \<Rightarrow> Inl e
                | Loaded names \<Rightarrow>
                    Inr \<lparr> linear_model = lm, ridge_model = rm, feature_names = names \<rparr>)))"

text \<open>The two handlers: \<open>except FileNotFoundError\<close> first, \<open>except Exception\<close> second.\<close>

definition load_error_message :: "py_exception \<Rightarrow> message" where
  "load_error_message e =
     (case e of
        FileNotFoundError _ \<Rightarrow> File_not_found e
      | _ \<Rightarrow> Error_loading_resources e)"

text \<open>
  The result is the trace and the loaded application, or \<open>None\<close> when the handler has
  called \<open>st.stop()\<close>.
\<close>

definition load_resources :: "artifacts \<Rightarrow> event list \<times> app option" where
  "load_resources fs =
     (case load_all fs of
        Inr self \<Rightarrow> ([Toast_models_loaded], Some self)
      | Inl e \<Rightarrow> ([Error_box (load_error_message e)], None))"

subsection \<open>\<open>run\<close> (lines 143--237)\<close>

definition input_widgets :: "event list" where
  "input_widgets =
     [ Page_title,
       Widget ''Voltage (V)'', Widget ''Global Intensity (A)'',
       Widget ''Sub Metering 1 (Wh)'', Widget ''Sub Metering 2 (Wh)'',
       Widget ''Sub Metering 3 (Wh)'', Widget ''Select Date'', Widget ''Select Time'' ]"

text \<open>
  The handler of the prediction block catches \<open>ValueError\<close> only: it shows the error and
  the script goes on to the expander. Any other exception leaves \<open>run\<close>.
\<close>

definition prediction_failed :: "app \<Rightarrow> event list \<Rightarrow> py_exception \<Rightarrow> app \<times> event list \<times> outcome" where
  "prediction_failed self shown e =
     (case e of
        ValueError _ \<Rightarrow>
          (self, shown @ [Error_box (Prediction_error e), Methodology_expander], Completed)
      | _ \<Rightarrow> (self, shown, Uncaught e))"

text \<open>
  \<open>run\<close> takes the application object and the widgets' values and returns the object as
  the run leaves it, the trace and the outcome.
\<close>

definition run :: "app \<Rightarrow> inputs \<Rightarrow> app \<times> event list \<times> outcome" where
  "run self inp =
     (let input_data = build_input_data inp
      in case df_getitem input_data (feature_names self) of
           Inl e \<Rightarrow>
             (case e of
                KeyError _ \<Rightarrow> (self, input_widgets @ [Error_box (Missing_features e)], Stopped)
              | _ \<Rightarrow> (self, input_widgets, Uncaught e))
         | Inr input_data \<Rightarrow>
             (let called1 = input_widgets @ [Predict_called Linear input_data]
              in case predict_first (linear_model self) input_data of
                   Inl e \<Rightarrow> prediction_failed self called1 e
                 | Inr linear_pred \<Rightarrow>
                     (let called2 = called1 @ [Predict_called Ridge input_data]
                      in case predict_first (ridge_model self) input_data of
                           Inl e \<Rightarrow> prediction_failed self called2 e
                         | Inr ridge_pred \<Rightarrow>
                             (self,
                              called2 @ [Prediction_card linear_pred ridge_pred,
                                         Methodology_expander],
                              Completed))))"

subsection \<open>The script (lines 7--16 and 239--241)\<close>


text \<open>
  The application object as a script run leaves it: the one the constructor built, after
  \<open>run\<close>; there is none when the constructor was stopped in \<open>load_resources\<close>.
\<close>

definition script_state :: "artifacts \<Rightarrow> inputs \<Rightarrow> app option" where
  "script_state fs inp =
     (case load_resources fs of
        (_, None) \<Rightarrow> None
      | (_, Some self) \<Rightarrow> Some (fst (run self inp)))"

text \<open>
  Streamlit executes the script from its first line on every interaction. Nothing in the
  script caches the application object or the artifacts, so every interaction constructs
  a new object and loads the three files as they are at that moment. A session is the
  list of its interactions, each with the files and the widgets' values it finds.
\<close>

definition session_states :: "(artifacts \<times> inputs) list \<Rightarrow> app option list" where
  "session_states interactions = map (\<lambda>(fs, inp). script_state fs inp) interactions"

text \<open>How often a trace calls one model.\<close>

definition calls_of :: "model_id \<Rightarrow> event list \<Rightarrow> nat" where
  "calls_of m shown =
     length (filter (\<lambda>ev. case ev of Predict_called m' _ \<Rightarrow> m' = m | _ \<Rightarrow> False) shown)"

subsection \<open>Concrete inputs\<close>

text \<open>The widgets' default values (lines 154--162).\<close>

definition default_inputs :: inputs where
  "default_inputs =
     \<lparr> voltage = 240.0, global_intensity = 4.63, sub_metering_1 = 1.12,
       sub_metering_2 = 1.30, sub_metering_3 = 6.46,
       date = \<lparr> date_year = 2024, date_month = 11, date_day = 28 \<rparr>,
       time = \<lparr> time_hour = 12, time_minute = 0, time_second = 0, time_microsecond = 0 \<rparr> \<rparr>"

text \<open>A model that predicts one constant, and one that rejects every frame.\<close>

definition constant_model :: "real \<Rightarrow> predictor" where
  "constant_model c df = Returns [c]"

definition rejecting_model :: "string \<Rightarrow> predictor" where
  "rejecting_model msg df = Raises (ValueError msg)"

text \<open>The columns in the order the script builds them, and an order with a foreign name.\<close>

definition training_order :: "string list" where
  "training_order =
     [ ''Global_reactive_power'', ''Voltage'', ''Global_intensity'', ''Sub_metering_1'',
       ''Sub_metering_2'', ''Sub_metering_3'', ''Year'', ''Month'', ''Day'', ''Hour'',
       ''Minute'', ''Is_holiday'', ''Light'', ''Weekday'' ]"

definition short_order :: "string list" where
  "short_order = [''Weekday'', ''Voltage'', ''Hour'']"

definition foreign_order :: "string list" where
  "foreign_order = [''Voltage'', ''Temperature'', ''Hour'']"

text \<open>Applications for the concrete cases: constant models, with each of the orders.\<close>

definition foreign_app :: app where
  "foreign_app =
     \<lparr> linear_model = constant_model 1.5, ridge_model = constant_model 2.5,
       feature_names = foreign_order \<rparr>"

definition training_app :: app where
  "training_app =
     \<lparr> linear_model = constant_model 1.5, ridge_model = constant_model 2.5,
       feature_names = training_order \<rparr>"

definition rejecting_app :: app where
  "rejecting_app =
     \<lparr> linear_model = constant_model 1.5, ridge_model = rejecting_model ''Input contains NaN'',
       feature_names = short_order \<rparr>"

text \<open>The frame that \<open>short_order\<close> selects from the frame built of the default inputs.\<close>

definition short_frame :: dataframe where
  "short_frame = [(''Weekday'', IntV 3), (''Voltage'', FloatV 240.0), (''Hour'', IntV 12)]"



definition training_artifacts :: artifacts where
  "training_artifacts =
     \<lparr> linear_model_pkl = Loaded (constant_model 1.5),
       ridge_model_pkl = Loaded (constant_model 2.5),
       feature_names_pkl = Loaded training_order \<rparr>"

definition short_artifacts :: artifacts where
  "short_artifacts =
     \<lparr> linear_model_pkl = Loaded (constant_model 1.5),
       ridge_model_pkl = Loaded (constant_model 2.5),
       feature_names_pkl = Loaded short_order \<rparr>"

text \<open>The last day of 2024, a Tuesday, and the time 00:00.\<close>

definition new_years_eve :: date where
  "new_years_eve = \<lparr> date_year = 2024, date_month = 12, date_day = 31 \<rparr>"

definition midnight :: time where
  "midnight = \<lparr> time_hour = 0, time_minute = 0, time_second = 0, time_microsecond = 0 \<rparr>"

section \<open>Properties\<close>

subsection \<open>Column selection\<close>

lemma set_unique: "set (unique xs) = set xs"
  by (induction xs rule: unique.induct) auto

lemma df_getitem_present:
  "set names \<subseteq> fst ` set df \<Longrightarrow>
     df_getitem df names = Inr (map (\<lambda>n. (n, the (map_of df n))) names)"
  by (auto simp: df_getitem_def filter_empty_conv map_of_eq_None_iff)

lemma df_getitem_absent:
  "n \<in> set names \<Longrightarrow> map_of df n = None \<Longrightarrow>
     df_getitem df names
       = Inl (KeyError (unique (filter (\<lambda>n. map_of df n = None) names)))"
  by (auto simp: df_getitem_def Let_def filter_empty_conv)

lemma short_frame_selected:
  "df_getitem (build_input_data default_inputs) short_order = Inr short_frame"
  by (simp add: df_getitem_def build_input_data_def Let_def short_order_def short_frame_def
      default_inputs_def combine_def weekday_def toordinal_def days_before_year_def
      days_before_month_def days_in_month_table_def is_leap_def)

subsection \<open>The application object is only read\<close>

lemma prediction_failed_self: "fst (prediction_failed self shown e) = self"
  by (cases e) (simp_all add: prediction_failed_def)

lemma run_self: "fst (run self inp) = self"
  by (simp add: run_def Let_def prediction_failed_self split: sum.splits py_exception.splits)

subsection \<open>Expected columns present or absent\<close>

text \<open>
  Claim C1. For all readings and every date and time, selecting the expected columns from
  the built frame, when every expected name is one of its columns, yields a row as long
  as the expected order whose i-th value is the built frame's value for the i-th expected
  name.
\<close>

theorem align_built_record:
  assumes "set names \<subseteq> fst ` set (build_input_data inp)"
  shows "\<exists>df. df_getitem (build_input_data inp) names = Inr df
           \<and> length (row_values df) = length names
           \<and> (\<forall>i<length names.
                 map_of (build_input_data inp) (names ! i) = Some (row_values df ! i))"
proof -
  let ?rec = "build_input_data inp"
  let ?df = "map (\<lambda>n. (n, the (map_of ?rec n))) names"
  have sel: "df_getitem ?rec names = Inr ?df"
    using assms by (rule df_getitem_present)
  have len: "length (row_values ?df) = length names"
    by (simp add: row_values_def)
  have nth: "map_of ?rec (names ! i) = Some (row_values ?df ! i)" if "i < length names" for i
  proof -
    from that assms have "names ! i \<in> fst ` set ?rec"
      using nth_mem by blast
    then obtain v where "map_of ?rec (names ! i) = Some v"
      by (metis map_of_eq_None_iff not_Some_eq)
    with that show ?thesis by (simp add: row_values_def)
  qed
  from sel len nth show ?thesis by blast
qed

theorem align_built_record_witness:
  "set short_order \<subseteq> fst ` set (build_input_data default_inputs)
   \<and> (\<exists>df. df_getitem (build_input_data default_inputs) short_order = Inr df
           \<and> length (row_values df) = length short_order
           \<and> (\<forall>i<length short_order.
                 map_of (build_input_data default_inputs) (short_order ! i) = Some (row_values df ! i)))"
proof -
  have h: "set short_order \<subseteq> fst ` set (build_input_data default_inputs)"
    by (simp add: short_order_def build_input_data_def Let_def)
  show ?thesis using h align_built_record [OF h] by simp
qed

text \<open>
  Claim C2. When the expected order has a name that the built frame lacks, the selection
  raises \<open>KeyError\<close> naming it and yields no frame; \<open>run\<close> shows the missing-features
  error and stops, with the application object as it was, without calling either model
  and without showing a prediction card.
\<close>

theorem align_missing_feature:
  assumes "n \<in> set (feature_names self)" and "map_of (build_input_data inp) n = None"
  shows "\<exists>missing shown.
           df_getitem (build_input_data inp) (feature_names self) = Inl (KeyError missing)
         \<and> n \<in> set missing
         \<and> run self inp = (self, shown, Stopped)
         \<and> Error_box (Missing_features (KeyError missing)) \<in> set shown
         \<and> calls_of Linear shown = 0 \<and> calls_of Ridge shown = 0
         \<and> (\<forall>l r. Prediction_card l r \<notin> set shown)"
proof -
  let ?missing = "unique (filter (\<lambda>k. map_of (build_input_data inp) k = None) (feature_names self))"
  let ?shown = "input_widgets @ [Error_box (Missing_features (KeyError ?missing))]"
  have sel: "df_getitem (build_input_data inp) (feature_names self) = Inl (KeyError ?missing)"
    using assms by (rule df_getitem_absent)
  have mem: "n \<in> set ?missing"
    using assms by (simp add: set_unique)
  have r: "run self inp = (self, ?shown, Stopped)"
    by (simp add: run_def sel)
  have box: "Error_box (Missing_features (KeyError ?missing)) \<in> set ?shown"
    by simp
  have calls: "calls_of Linear ?shown = 0" "calls_of Ridge ?shown = 0"
    by (simp_all add: calls_of_def input_widgets_def)
  have card: "\<forall>l r. Prediction_card l r \<notin> set ?shown"
    by (simp add: input_widgets_def)
  from sel mem r box calls card show ?thesis by blast
qed

theorem align_missing_feature_witness:
  "''Temperature'' \<in> set (feature_names foreign_app)
   \<and> map_of (build_input_data default_inputs) ''Temperature'' = None
   \<and> (\<exists>missing shown.
           df_getitem (build_input_data default_inputs) (feature_names foreign_app) = Inl (KeyError missing)
         \<and> ''Temperature'' \<in> set missing
         \<and> run foreign_app default_inputs = (foreign_app, shown, Stopped)
         \<and> Error_box (Missing_features (KeyError missing)) \<in> set shown
         \<and> calls_of Linear shown = 0 \<and> calls_of Ridge shown = 0
         \<and> (\<forall>l r. Prediction_card l r \<notin> set shown))"
proof -
  have h1: "''Temperature'' \<in> set (feature_names foreign_app)"
    by (simp add: foreign_app_def foreign_order_def)
  have h2: "map_of (build_input_data default_inputs) ''Temperature'' = None"
    by (simp add: build_input_data_def Let_def)
  show ?thesis using h1 h2 align_missing_feature [OF h1 h2] by simp
qed

subsection \<open>The weekday follows the calendar\<close>

text \<open>
  The ordinal of the next calendar day is the next ordinal, within a month, from the last
  day of a month to the first of the next, and from 31 December to 1 January; hence the
  weekday advances by one, modulo 7, with every calendar day.
\<close>

lemma is_leap_gregorian: "is_leap y = gregorian_leap_year y"
proof -
  have "0 \<le> y mod 100" by simp
  then have "(0 < y mod 100) = (y mod 100 \<noteq> 0)" by linarith
  then show ?thesis
    by (simp add: is_leap_def gregorian_leap_year_def)
qed

lemma div_previous:
  fixes y k :: int
  assumes "0 < k"
  shows "y div k = (y - 1) div k + (if y mod k = 0 then 1 else 0)"
proof (cases "y mod k = 0")
  case True
  then have "y = k * (y div k)"
    using mult_div_mod_eq [of k y] by simp
  then have "y - 1 = k * (y div k - 1) + (k - 1)"
    by (simp add: algebra_simps)
  then have "(y - 1) div k = y div k - 1"
    using assms by (intro int_div_pos_eq [where r = "k - 1"]) simp_all
  with True show ?thesis by simp
next
  case False
  have r: "0 < y mod k" "y mod k < k"
    using assms False pos_mod_sign [of k y] pos_mod_bound [of k y] by linarith+
  have "y - 1 = k * (y div k) + (y mod k - 1)"
    by simp
  then have "(y - 1) div k = y div k"
    using r by (intro int_div_pos_eq [where r = "y mod k - 1"]) simp_all
  with False show ?thesis by simp
qed

lemma mod_100_4: "(y::int) mod 100 = 0 \<Longrightarrow> y mod 4 = 0"
proof -
  assume "y mod 100 = 0"
  then have "100 dvd y" by (simp add: dvd_eq_mod_eq_0)
  moreover have "(4::int) dvd 100" by simp
  ultimately have "4 dvd y" by (rule dvd_trans [rotated])
  then show ?thesis by (simp add: dvd_eq_mod_eq_0)
qed

lemma mod_400_100: "(y::int) mod 400 = 0 \<Longrightarrow> y mod 100 = 0"
proof -
  assume "y mod 400 = 0"
  then have "400 dvd y" by (simp add: dvd_eq_mod_eq_0)
  moreover have "(100::int) dvd 400" by simp
  ultimately have "100 dvd y" by (rule dvd_trans [rotated])
  then show ?thesis by (simp add: dvd_eq_mod_eq_0)
qed

lemma year_step_arith:
  fixes y a b c a' b' c' x u w :: int
  assumes "a' = a + x" and "b' = b + u" and "c' = c + w"
  shows "y * 365 + a' - b' + c' = ((y - 1) * 365 + a - b + c) + 365 + (x - u + w)"
  by (simp add: assms algebra_simps)

lemma leap_count:
  assumes "q \<Longrightarrow> p" and "r \<Longrightarrow> q"
  shows "(if p then 1 else 0) - (if q then 1 else 0) + (if r then 1 else 0)
       = (if p \<and> (\<not> q \<or> r) then (1::int) else 0)"
  using assms by auto

lemma days_before_next_year:
  "days_before_year (y + 1) = days_before_year y + 365 + (if gregorian_leap_year y then 1 else 0)"
proof -
  have d4: "y div 4 = (y - 1) div 4 + (if y mod 4 = 0 then 1 else 0)"
    by (rule div_previous) simp
  have d100: "y div 100 = (y - 1) div 100 + (if y mod 100 = 0 then 1 else 0)"
    by (rule div_previous) simp
  have d400: "y div 400 = (y - 1) div 400 + (if y mod 400 = 0 then 1 else 0)"
    by (rule div_previous) simp
  have pos: "(0 < y mod 100) = (\<not> y mod 100 = 0)"
    using pos_mod_sign [of 100 y] by linarith
  have leap: "(if y mod 4 = 0 then 1 else 0) - (if y mod 100 = 0 then 1 else 0)
        + (if y mod 400 = 0 then 1 else 0)
      = (if gregorian_leap_year y then (1::int) else 0)"
    unfolding gregorian_leap_year_def pos
    by (rule leap_count) (erule mod_100_4, erule mod_400_100)
  have "days_before_year (y + 1) = y * 365 + y div 4 - y div 100 + y div 400"
    by (simp add: days_before_year_def)
  also have "\<dots> = ((y - 1) * 365 + (y - 1) div 4 - (y - 1) div 100 + (y - 1) div 400) + 365
      + ((if y mod 4 = 0 then 1 else 0) - (if y mod 100 = 0 then 1 else 0)
          + (if y mod 400 = 0 then 1 else 0))"
    by (rule year_step_arith [OF d4 d100 d400])
  also have "\<dots> = days_before_year y + 365 + (if gregorian_leap_year y then 1 else 0)"
    unfolding leap days_before_year_def by (rule refl)
  finally show ?thesis .
qed

lemma days_before_next_month:
  assumes "1 \<le> m" and "m < 12"
  shows "days_before_month y (m + 1) = days_before_month y m + calendar_days_in_month y m"
proof -
  from assms have "m = 1 \<or> m = 2 \<or> m = 3 \<or> m = 4 \<or> m = 5 \<or> m = 6 \<or> m = 7 \<or> m = 8 \<or> m = 9
      \<or> m = 10 \<or> m = 11"
    by arith
  then show ?thesis
    by (elim disjE)
      (simp_all add: days_before_month_def days_in_month_table_def calendar_days_in_month_def
        is_leap_gregorian eval_nat_numeral)
qed

lemma days_before_december:
  "days_before_month y 12 + 31 = 365 + (if gregorian_leap_year y then 1 else 0)"
  by (simp add: days_before_month_def days_in_month_table_def is_leap_gregorian eval_nat_numeral)

lemma toordinal_next_day:
  assumes "valid_date d"
  shows "toordinal (combine (calendar_next_day d) t) = toordinal (combine d t) + 1"
proof -
  let ?n = "calendar_days_in_month (date_year d) (date_month d)"
  from assms have m: "1 \<le> date_month d" "date_month d \<le> 12"
    and dd: "1 \<le> date_day d" "date_day d \<le> ?n"
    by (simp_all add: valid_date_def)
  consider (same_month) "date_day d < ?n"
    | (next_month) "date_day d = ?n" "date_month d < 12"
    | (next_year) "date_day d = ?n" "date_month d = 12"
    using m dd by linarith
  then show ?thesis
  proof cases
    case same_month
    then show ?thesis
      by (simp add: calendar_next_day_def toordinal_def combine_def)
  next
    case next_month
    with m show ?thesis
      by (simp add: calendar_next_day_def toordinal_def combine_def days_before_next_month)
  next
    case next_year
    have "?n = 31"
      using next_year by (simp add: calendar_days_in_month_def)
    with next_year days_before_december [of "date_year d"] show ?thesis
      by (simp add: calendar_next_day_def toordinal_def combine_def days_before_next_year
          days_before_month_def)
  qed
qed

lemma valid_next_day: "valid_date d \<Longrightarrow> valid_date (calendar_next_day d)"
  by (auto simp: valid_date_def calendar_next_day_def calendar_days_in_month_def)

lemma weekday_next_day:
  "valid_date d \<Longrightarrow>
     weekday (combine (calendar_next_day d) t) = (weekday (combine d t) + 1) mod 7"
  by (simp add: weekday_def toordinal_next_day mod_simps add.commute add.left_commute)

lemma valid_days_later: "valid_date d \<Longrightarrow> valid_date (days_later n d)"
  by (induction n) (simp_all add: valid_next_day)

lemma weekday_days_later:
  "valid_date d \<Longrightarrow>
     weekday (combine (days_later n d) t) = (weekday (combine d t) + int n) mod 7"
proof (induction n)
  case 0
  then show ?case by (simp add: weekday_def)
next
  case (Suc n)
  then show ?case
    by (simp add: weekday_next_day valid_days_later mod_simps ac_simps)
qed

subsection \<open>The built frame\<close>

text \<open>
  Claim C3. The built frame holds the year, month, day, hour and minute of the combined
  date and time, and the weekday as an integer from 0 to 6 with Monday as 0: the Mondays
  2024-11-25 and 0001-01-01 have weekday 0, and for every date of the calendar the next
  calendar day has the next weekday and the n-th day after it the weekday n further,
  modulo 7, so the weekday of every date is its distance in days from a Monday. For
  2024-11-28 at 12:00 the fields are 2024, 11, 28, 12, 0 and weekday 3.
\<close>

theorem calendar_fields:
  "map_of (build_input_data inp) ''Year'' = Some (IntV (date_year (date inp)))
   \<and> map_of (build_input_data inp) ''Month'' = Some (IntV (date_month (date inp)))
   \<and> map_of (build_input_data inp) ''Day'' = Some (IntV (date_day (date inp)))
   \<and> map_of (build_input_data inp) ''Hour'' = Some (IntV (time_hour (time inp)))
   \<and> map_of (build_input_data inp) ''Minute'' = Some (IntV (time_minute (time inp)))
   \<and> map_of (build_input_data inp) ''Weekday'' = Some (IntV (weekday (combine (date inp) (time inp))))
   \<and> 0 \<le> weekday (combine (date inp) (time inp))
   \<and> weekday (combine (date inp) (time inp)) \<le> 6
   \<and> weekday (combine \<lparr> date_year = 2024, date_month = 11, date_day = 25 \<rparr> t) = 0
   \<and> weekday (combine \<lparr> date_year = 1, date_month = 1, date_day = 1 \<rparr> t) = 0
   \<and> (valid_date d \<longrightarrow>
         valid_date (calendar_next_day d)
         \<and> weekday (combine (calendar_next_day d) t) = (weekday (combine d t) + 1) mod 7
         \<and> weekday (combine (days_later n d) t) = (weekday (combine d t) + int n) mod 7)
   \<and> map_of (build_input_data default_inputs) ''Year'' = Some (IntV 2024)
   \<and> map_of (build_input_data default_inputs) ''Month'' = Some (IntV 11)
   \<and> map_of (build_input_data default_inputs) ''Day'' = Some (IntV 28)
   \<and> map_of (build_input_data default_inputs) ''Hour'' = Some (IntV 12)
   \<and> map_of (build_input_data default_inputs) ''Minute'' = Some (IntV 0)
   \<and> map_of (build_input_data default_inputs) ''Weekday'' = Some (IntV 3)"
proof -
  have fields:
    "map_of (build_input_data inp) ''Year'' = Some (IntV (date_year (date inp)))"
    "map_of (build_input_data inp) ''Month'' = Some (IntV (date_month (date inp)))"
    "map_of (build_input_data inp) ''Day'' = Some (IntV (date_day (date inp)))"
    "map_of (build_input_data inp) ''Hour'' = Some (IntV (time_hour (time inp)))"
    "map_of (build_input_data inp) ''Minute'' = Some (IntV (time_minute (time inp)))"
    "map_of (build_input_data inp) ''Weekday'' = Some (IntV (weekday (combine (date inp) (time inp))))"
    by (simp_all add: build_input_data_def Let_def combine_def)
  have range: "0 \<le> weekday (combine (date inp) (time inp))"
    "weekday (combine (date inp) (time inp)) \<le> 6"
    by (simp_all add: weekday_def)
  have mondays:
    "weekday (combine \<lparr> date_year = 2024, date_month = 11, date_day = 25 \<rparr> t) = 0"
    "weekday (combine \<lparr> date_year = 1, date_month = 1, date_day = 1 \<rparr> t) = 0"
    by (simp_all add: weekday_def toordinal_def combine_def days_before_year_def
        days_before_month_def days_in_month_table_def is_leap_def)
  have steps: "valid_date d \<longrightarrow>
         valid_date (calendar_next_day d)
         \<and> weekday (combine (calendar_next_day d) t) = (weekday (combine d t) + 1) mod 7
         \<and> weekday (combine (days_later n d) t) = (weekday (combine d t) + int n) mod 7"
    using valid_next_day [of d] weekday_next_day [of d t] weekday_days_later [of d n t]
    by blast
  have example:
    "map_of (build_input_data default_inputs) ''Year'' = Some (IntV 2024)"
    "map_of (build_input_data default_inputs) ''Month'' = Some (IntV 11)"
    "map_of (build_input_data default_inputs) ''Day'' = Some (IntV 28)"
    "map_of (build_input_data default_inputs) ''Hour'' = Some (IntV 12)"
    "map_of (build_input_data default_inputs) ''Minute'' = Some (IntV 0)"
    "map_of (build_input_data default_inputs) ''Weekday'' = Some (IntV 3)"
    by (simp_all add: build_input_data_def Let_def combine_def default_inputs_def
        weekday_def toordinal_def days_before_year_def
        days_before_month_def days_in_month_table_def is_leap_def)
  from fields range mondays steps example show ?thesis
    by (intro conjI)
qed

theorem calendar_fields_witness:
  "valid_date new_years_eve
   \<and> calendar_next_day new_years_eve = \<lparr> date_year = 2025, date_month = 1, date_day = 1 \<rparr>
   \<and> weekday (combine new_years_eve midnight) = 1
   \<and> weekday (combine (calendar_next_day new_years_eve) midnight) = 2
   \<and> weekday (combine (days_later 60 new_years_eve) midnight) = 5"
proof -
  have h: "valid_date new_years_eve"
    by (simp add: valid_date_def new_years_eve_def calendar_days_in_month_def)
  have nxt: "calendar_next_day new_years_eve = \<lparr> date_year = 2025, date_month = 1, date_day = 1 \<rparr>"
    by (simp add: calendar_next_day_def new_years_eve_def calendar_days_in_month_def)
  have wd: "weekday (combine new_years_eve midnight) = 1"
    by (simp add: weekday_def toordinal_def combine_def days_before_year_def new_years_eve_def
        days_before_month_def days_in_month_table_def is_leap_def)
  from calendar_fields [of default_inputs midnight new_years_eve 60] h
  have "weekday (combine (calendar_next_day new_years_eve) midnight)
          = (weekday (combine new_years_eve midnight) + 1) mod 7"
    and "weekday (combine (days_later 60 new_years_eve) midnight)
          = (weekday (combine new_years_eve midnight) + int 60) mod 7"
    by blast+
  with h nxt wd show ?thesis by simp
qed

text \<open>
  Claim C4. Whatever the readings and the date and time, the built frame has reactive
  power 0.0, the light flag 1 and the holiday flag 0.
\<close>

theorem constant_fields:
  "map_of (build_input_data inp) ''Global_reactive_power'' = Some (FloatV 0.0)
   \<and> map_of (build_input_data inp) ''Light'' = Some (IntV 1)
   \<and> map_of (build_input_data inp) ''Is_holiday'' = Some (IntV 0)"
  by (simp add: build_input_data_def Let_def)

subsection \<open>Loading the artifacts\<close>




subsection \<open>Predictions\<close>

text \<open>
  Claim C6. When the selected frame is rejected with a \<open>ValueError\<close> by the linear model,
  or by the ridge model after the linear model has answered, \<open>run\<close> shows the prediction
  error and no prediction card, calls the linear model once and the ridge model at most
  once, leaves the application object as it was and runs to the end of the script.
\<close>

theorem rejected_vector_reported:
  assumes sel: "df_getitem (build_input_data inp) (feature_names self) = Inr v"
    and rej: "linear_model self v = Raises (ValueError msg)
            \<or> ((\<exists>y ys. linear_model self v = Returns (y # ys))
                \<and> ridge_model self v = Raises (ValueError msg))"
  shows "\<exists>shown. run self inp = (self, shown, Completed)
           \<and> Error_box (Prediction_error (ValueError msg)) \<in> set shown
           \<and> (\<forall>l r. Prediction_card l r \<notin> set shown)
           \<and> calls_of Linear shown = 1 \<and> calls_of Ridge shown \<le> 1"
proof -
  from rej consider
      (lin) "linear_model self v = Raises (ValueError msg)"
    | (rid) y ys where "linear_model self v = Returns (y # ys)"
        "ridge_model self v = Raises (ValueError msg)"
    by blast
  then show ?thesis
  proof cases
    case lin
    let ?shown = "input_widgets @ [Predict_called Linear v,
        Error_box (Prediction_error (ValueError msg)), Methodology_expander]"
    have "run self inp = (self, ?shown, Completed)"
      by (simp add: run_def sel predict_first_def lin prediction_failed_def)
    moreover have "Error_box (Prediction_error (ValueError msg)) \<in> set ?shown"
      by simp
    moreover have "\<forall>l r. Prediction_card l r \<notin> set ?shown"
      by (simp add: input_widgets_def)
    moreover have "calls_of Linear ?shown = 1" "calls_of Ridge ?shown \<le> 1"
      by (simp_all add: calls_of_def input_widgets_def)
    ultimately show ?thesis by blast
  next
    case rid
    let ?shown = "input_widgets @ [Predict_called Linear v, Predict_called Ridge v,
        Error_box (Prediction_error (ValueError msg)), Methodology_expander]"
    have "run self inp = (self, ?shown, Completed)"
      by (simp add: run_def sel predict_first_def rid prediction_failed_def)
    moreover have "Error_box (Prediction_error (ValueError msg)) \<in> set ?shown"
      by simp
    moreover have "\<forall>l r. Prediction_card l r \<notin> set ?shown"
      by (simp add: input_widgets_def)
    moreover have "calls_of Linear ?shown = 1" "calls_of Ridge ?shown \<le> 1"
      by (simp_all add: calls_of_def input_widgets_def)
    ultimately show ?thesis by blast
  qed
qed

theorem rejected_vector_reported_witness:
  "df_getitem (build_input_data default_inputs) (feature_names rejecting_app) = Inr short_frame
   \<and> (linear_model rejecting_app short_frame = Raises (ValueError ''Input contains NaN'')
            \<or> ((\<exists>y ys. linear_model rejecting_app short_frame = Returns (y # ys))
                \<and> ridge_model rejecting_app short_frame = Raises (ValueError ''Input contains NaN'')))
   \<and> (\<exists>shown. run rejecting_app default_inputs = (rejecting_app, shown, Completed)
           \<and> Error_box (Prediction_error (ValueError ''Input contains NaN'')) \<in> set shown
           \<and> (\<forall>l r. Prediction_card l r \<notin> set shown)
           \<and> calls_of Linear shown = 1 \<and> calls_of Ridge shown \<le> 1)"
proof -
  have h1: "df_getitem (build_input_data default_inputs) (feature_names rejecting_app) = Inr short_frame"
    by (simp add: rejecting_app_def short_frame_selected)
  have h2: "linear_model rejecting_app short_frame = Raises (ValueError ''Input contains NaN'')
            \<or> ((\<exists>y ys. linear_model rejecting_app short_frame = Returns (y # ys))
                \<and> ridge_model rejecting_app short_frame = Raises (ValueError ''Input contains NaN''))"
  proof -
    have "linear_model rejecting_app short_frame = Returns [1.5]"
      by (simp add: rejecting_app_def constant_model_def)
    moreover have "ridge_model rejecting_app short_frame = Raises (ValueError ''Input contains NaN'')"
      by (simp add: rejecting_app_def rejecting_model_def)
    ultimately show ?thesis by blast
  qed
  show ?thesis
    using h1 h2 rejected_vector_reported [OF h1 h2] by simp
qed

text \<open>
  Claim C7. A model that returns one fixed constant for every frame makes the prediction
  exactly that constant; with two such models and every expected name a column, \<open>run\<close>
  shows the card with the two constants.
\<close>

theorem constant_predictor_returned:
  assumes "\<forall>df. linear_model self df = Returns [c1]"
    and "\<forall>df. ridge_model self df = Returns [c2]"
    and "set (feature_names self) \<subseteq> fst ` set (build_input_data inp)"
  shows "predict_first (linear_model self) v = Inr c1
       \<and> predict_first (ridge_model self) v = Inr c2
       \<and> (\<exists>shown. run self inp = (self, shown, Completed)
              \<and> Prediction_card c1 c2 \<in> set shown)"
proof -
  have p1: "predict_first (linear_model self) df = Inr c1" for df
    using assms(1) by (simp add: predict_first_def)
  have p2: "predict_first (ridge_model self) df = Inr c2" for df
    using assms(2) by (simp add: predict_first_def)
  from assms(3) obtain sel where
    sel: "df_getitem (build_input_data inp) (feature_names self) = Inr sel"
    using df_getitem_present by blast
  let ?shown = "input_widgets @ [Predict_called Linear sel, Predict_called Ridge sel,
      Prediction_card c1 c2, Methodology_expander]"
  have "run self inp = (self, ?shown, Completed)"
    by (simp add: run_def sel p1 p2)
  moreover have "Prediction_card c1 c2 \<in> set ?shown"
    by simp
  ultimately show ?thesis using p1 p2 by blast
qed

theorem constant_predictor_returned_witness:
  "(\<forall>df. linear_model training_app df = Returns [1.5])
   \<and> (\<forall>df. ridge_model training_app df = Returns [2.5])
   \<and> set (feature_names training_app) \<subseteq> fst ` set (build_input_data default_inputs)
   \<and> predict_first (linear_model training_app) short_frame = Inr 1.5
   \<and> predict_first (ridge_model training_app) short_frame = Inr 2.5
   \<and> (\<exists>shown. run training_app default_inputs = (training_app, shown, Completed)
              \<and> Prediction_card 1.5 2.5 \<in> set shown)"
proof -
  have h1: "\<forall>df. linear_model training_app df = Returns [1.5]"
    by (simp add: training_app_def constant_model_def)
  have h2: "\<forall>df. ridge_model training_app df = Returns [2.5]"
    by (simp add: training_app_def constant_model_def)
  have h3: "set (feature_names training_app) \<subseteq> fst ` set (build_input_data default_inputs)"
    by (simp add: training_app_def training_order_def build_input_data_def Let_def)
  show ?thesis
    using h1 h2 h3 constant_predictor_returned [OF h1 h2 h3, of short_frame] by blast
qed

subsection \<open>The loaded state\<close>

text \<open>
  Claim C9, as the specification states it, fails: the models and the feature order are
  not loaded once and held for the life of the process. Every interaction is a script run
  that assigns the three fields again in \<open>load_resources\<close>, so when the feature-name file
  has changed between two interactions of a session, the second interaction works with
  another feature order than the first.
\<close>

theorem loaded_once_counterexample:
  "map (map_option feature_names)
       (session_states [(training_artifacts, default_inputs), (short_artifacts, default_inputs)])
     = [Some training_order, Some short_order]
   \<and> training_order \<noteq> short_order"
  by (simp add: session_states_def script_state_def load_resources_def load_all_def run_self
      training_artifacts_def short_artifacts_def training_order_def short_order_def)

text \<open>
  Claim C9, amended. Within one script run, once \<open>load_resources\<close> has returned, no
  operation reassigns or modifies the two models and the feature order: \<open>run\<close> only reads
  them, and the application object at the end of the run holds exactly what was loaded
  from the three files. They are held for that script run, not for the life of the
  process: in a session, every interaction whose three files load ends with the object
  loaded from the files of that interaction.
\<close>

theorem loaded_state_per_script_run:
  assumes "linear_model_pkl fs = Loaded lm" and "ridge_model_pkl fs = Loaded rm"
    and "feature_names_pkl fs = Loaded names"
  shows "load_resources fs
           = ([Toast_models_loaded],
              Some \<lparr> linear_model = lm, ridge_model = rm, feature_names = names \<rparr>)
       \<and> fst (run \<lparr> linear_model = lm, ridge_model = rm, feature_names = names \<rparr> inp)
           = \<lparr> linear_model = lm, ridge_model = rm, feature_names = names \<rparr>
       \<and> script_state fs inp
           = Some \<lparr> linear_model = lm, ridge_model = rm, feature_names = names \<rparr>
       \<and> (\<forall>i<length interactions. interactions ! i = (fs, inp) \<longrightarrow>
             session_states interactions ! i
               = Some \<lparr> linear_model = lm, ridge_model = rm, feature_names = names \<rparr>)"
proof -
  let ?self = "\<lparr> linear_model = lm, ridge_model = rm, feature_names = names \<rparr>"
  have loaded: "load_resources fs = ([Toast_models_loaded], Some ?self)"
    using assms by (simp add: load_resources_def load_all_def)
  have kept: "fst (run ?self inp) = ?self"
    by (rule run_self)
  have state: "script_state fs inp = Some ?self"
    by (simp add: script_state_def loaded kept)
  have session: "\<forall>i<length interactions. interactions ! i = (fs, inp) \<longrightarrow>
      session_states interactions ! i = Some ?self"
    by (simp add: session_states_def state)
  from loaded kept state session show ?thesis
    by (intro conjI)
qed

theorem loaded_state_per_script_run_witness:
  "linear_model_pkl short_artifacts = Loaded (constant_model 1.5)
   \<and> ridge_model_pkl short_artifacts = Loaded (constant_model 2.5)
   \<and> feature_names_pkl short_artifacts = Loaded short_order
   \<and> script_state short_artifacts default_inputs
       = Some \<lparr> linear_model = constant_model 1.5, ridge_model = constant_model 2.5,
                feature_names = short_order \<rparr>
   \<and> session_states [(training_artifacts, default_inputs), (short_artifacts, default_inputs)] ! 1
       = Some \<lparr> linear_model = constant_model 1.5, ridge_model = constant_model 2.5,
                feature_names = short_order \<rparr>"
proof -
  have h: "linear_model_pkl short_artifacts = Loaded (constant_model 1.5)"
    "ridge_model_pkl short_artifacts = Loaded (constant_model 2.5)"
    "feature_names_pkl short_artifacts = Loaded short_order"
    by (simp_all add: short_artifacts_def)
  from loaded_state_per_script_run [OF h,
      of default_inputs "[(training_artifacts, default_inputs), (short_artifacts, default_inputs)]"]
  have "script_state short_artifacts default_inputs
       = Some \<lparr> linear_model = constant_model 1.5, ridge_model = constant_model 2.5,
                feature_names = short_order \<rparr>"
    and "session_states [(training_artifacts, default_inputs), (short_artifacts, default_inputs)] ! 1
       = Some \<lparr> linear_model = constant_model 1.5, ridge_model = constant_model 2.5,
                feature_names = short_order \<rparr>"
    by simp_all
  with h show ?thesis by simp
qed

subsection \<open>The prediction card\<close>

text \<open>
  Claim C10. When either prediction fails, \<open>run\<close> shows no prediction card, hence neither
  estimate: it shows the prediction error and runs to the end, or the exception leaves
  \<open>run\<close> uncaught.
\<close>

theorem card_all_or_nothing:
  assumes sel: "df_getitem (build_input_data inp) (feature_names self) = Inr v"
    and fails: "(\<exists>e. predict_first (linear_model self) v = Inl e)
              \<or> (\<exists>e. predict_first (ridge_model self) v = Inl e)"
  shows "\<exists>shown out. run self inp = (self, shown, out)
           \<and> (\<forall>l r. Prediction_card l r \<notin> set shown)
           \<and> ((out = Completed \<and> (\<exists>e. Error_box (Prediction_error e) \<in> set shown))
               \<or> (\<exists>e. out = Uncaught e))"
proof -
  have failed: "\<exists>shown' out. prediction_failed self shown e = (self, shown', out)
           \<and> (\<forall>l r. Prediction_card l r \<notin> set shown')
           \<and> ((out = Completed \<and> (\<exists>e. Error_box (Prediction_error e) \<in> set shown'))
               \<or> (\<exists>e. out = Uncaught e))"
    if "\<forall>l r. Prediction_card l r \<notin> set shown" for shown e
    using that by (cases e) (auto simp: prediction_failed_def)
  have w1: "\<forall>l r. Prediction_card l r \<notin> set (input_widgets @ [Predict_called Linear v])"
    by (simp add: input_widgets_def)
  have w2: "\<forall>l r. Prediction_card l r
      \<notin> set ((input_widgets @ [Predict_called Linear v]) @ [Predict_called Ridge v])"
    by (simp add: input_widgets_def)
  show ?thesis
  proof (cases "predict_first (linear_model self) v")
    case (Inl e)
    then have "run self inp = prediction_failed self (input_widgets @ [Predict_called Linear v]) e"
      by (simp add: run_def sel)
    with failed [OF w1, of e] show ?thesis by simp
  next
    case (Inr l)
    with fails obtain e where e: "predict_first (ridge_model self) v = Inl e"
      by auto
    with Inr have "run self inp
        = prediction_failed self ((input_widgets @ [Predict_called Linear v]) @ [Predict_called Ridge v]) e"
      by (simp add: run_def sel)
    with failed [OF w2, of e] show ?thesis by simp
  qed
qed

theorem card_all_or_nothing_witness:
  "df_getitem (build_input_data default_inputs) (feature_names rejecting_app) = Inr short_frame
   \<and> ((\<exists>e. predict_first (linear_model rejecting_app) short_frame = Inl e)
        \<or> (\<exists>e. predict_first (ridge_model rejecting_app) short_frame = Inl e))
   \<and> (\<exists>shown out. run rejecting_app default_inputs = (rejecting_app, shown, out)
           \<and> (\<forall>l r. Prediction_card l r \<notin> set shown)
           \<and> ((out = Completed \<and> (\<exists>e. Error_box (Prediction_error e) \<in> set shown))
               \<or> (\<exists>e. out = Uncaught e)))"
proof -
  have h1: "df_getitem (build_input_data default_inputs) (feature_names rejecting_app) = Inr short_frame"
    by (simp add: rejecting_app_def short_frame_selected)
  have h2: "(\<exists>e. predict_first (linear_model rejecting_app) short_frame = Inl e)
        \<or> (\<exists>e. predict_first (ridge_model rejecting_app) short_frame = Inl e)"
    by (simp add: rejecting_app_def predict_first_def rejecting_model_def)
  show ?thesis
    using h1 h2 card_all_or_nothing [OF h1 h2] by simp
qed

end
